theory Spec2Isabelle
  imports Main "HOL-Library.Sublist"
begin

section \<open>Go library functions used by \<open>provision/docker.go\<close>\<close>

text \<open>
  Go strings are byte sequences; they are modelled as \<^typ>\<open>string\<close> (a list of
  \<^typ>\<open>char\<close>, one per byte). The functions of this section belong to the Go standard
  library (\<open>strings\<close>, \<open>path\<close>) and to \<open>github.com/fsouza/go-dockerclient\<close>; they are
  not part of the repository and are transcribed from their library sources.
\<close>

subsection \<open>Package \<open>strings\<close>\<close>

text \<open>\<open>strings.HasPrefix(s, p)\<close>.\<close>

definition HasPrefix :: "string \<Rightarrow> string \<Rightarrow> bool" where
  "HasPrefix s p = prefix p s"

text \<open>\<open>strings.Contains(s, sub)\<close>: some suffix of \<open>s\<close> starts with \<open>sub\<close>.\<close>

fun Contains :: "string \<Rightarrow> string \<Rightarrow> bool" where
  "Contains [] sub = (sub = [])"
| "Contains (c # s) sub = (prefix sub (c # s) \<or> Contains s sub)"

text \<open>
  \<open>strings.IndexByte\<close> and \<open>strings.LastIndexByte\<close>; Go's \<open>-1\<close> is \<open>None\<close>.
  \<open>strings.IndexRune(s, '@')\<close> and \<open>strings.LastIndex(s, ":")\<close> search for a single
  ASCII byte and agree with these.
\<close>

fun IndexByte :: "string \<Rightarrow> char \<Rightarrow> nat option" where
  "IndexByte [] c = None"
| "IndexByte (x # xs) c =
     (if x = c then Some 0
      else (case IndexByte xs c of None \<Rightarrow> None | Some i \<Rightarrow> Some (Suc i)))"

fun LastIndexByte :: "string \<Rightarrow> char \<Rightarrow> nat option" where
  "LastIndexByte [] c = None"
| "LastIndexByte (x # xs) c =
     (case LastIndexByte xs c of
        Some i \<Rightarrow> Some (Suc i)
      | None \<Rightarrow> (if x = c then Some 0 else None))"

subsection \<open>Package \<open>path\<close>: \<open>Clean\<close> and \<open>Join\<close>\<close>

text \<open>
  \<open>path.Clean\<close> reads the path left to right and writes into a buffer \<open>out\<close>;
  \<open>out.w\<close> is the length of the buffer and \<open>dotdot\<close> the index where a \<open>..\<close> element
  must stop backtracking. The model keeps the buffer as the list of the bytes written
  and the unread rest of the path.

  Backtracking on \<open>..\<close>: \<open>out.w--; for out.w > dotdot && out.index(out.w) != '/' { out.w-- }\<close>.
\<close>

fun backtrack :: "nat \<Rightarrow> string \<Rightarrow> nat \<Rightarrow> nat" where
  "backtrack dotdot buf 0 = 0"
| "backtrack dotdot buf (Suc w) =
     (if Suc w > dotdot \<and> buf ! Suc w \<noteq> CHR ''/'' then backtrack dotdot buf w else Suc w)"

function clean_loop :: "bool \<Rightarrow> nat \<Rightarrow> string \<Rightarrow> string \<Rightarrow> string" where
  "clean_loop rooted dotdot out [] = out"
| "clean_loop rooted dotdot out (c # rest) =
     (if c = CHR ''/'' then clean_loop rooted dotdot out rest
      else if c = CHR ''.'' \<and> (rest = [] \<or> hd rest = CHR ''/'') then
        clean_loop rooted dotdot out rest
      else if c = CHR ''.'' \<and> hd rest = CHR ''.'' \<and> (tl rest = [] \<or> hd (tl rest) = CHR ''/'') then
        (if length out > dotdot then
           clean_loop rooted dotdot (take (backtrack dotdot out (length out - 1)) out) (tl rest)
         else if \<not> rooted then
           (let out' = (if length out > 0 then out @ ''/'' else out) @ ''..''
            in clean_loop rooted (length out') out' (tl rest))
         else clean_loop rooted dotdot out (tl rest))
      else
        (let out' = (if rooted \<and> length out \<noteq> 1 \<or> \<not> rooted \<and> length out \<noteq> 0
                     then out @ ''/'' else out)
         in clean_loop rooted dotdot
              (out' @ takeWhile (\<lambda>x. x \<noteq> CHR ''/'') (c # rest))
              (dropWhile (\<lambda>x. x \<noteq> CHR ''/'') (c # rest))))"
  by pat_completeness auto
termination
proof (relation "measure (\<lambda>(rooted, dotdot, out, rest). length rest)")
  fix c :: char and rest :: string
  assume "c \<noteq> CHR ''/''"
  have "length (dropWhile (\<lambda>x. x \<noteq> CHR ''/'') rest) \<le> length rest"
    by (rule length_dropWhile_le)
  then show "((rooted, dotdot, out' @ takeWhile (\<lambda>x. x \<noteq> CHR ''/'') (c # rest),
               dropWhile (\<lambda>x. x \<noteq> CHR ''/'') (c # rest)),
              (rooted, dotdot, out, c # rest))
             \<in> measure (\<lambda>(rooted, dotdot, out, rest). length rest)"
    for rooted dotdot out out'
    using \<open>c \<noteq> CHR ''/''\<close> by simp
qed (auto simp: less_Suc_eq_le)

definition Clean :: "string \<Rightarrow> string" where
  "Clean path =
     (if path = [] then ''.''
      else
        (let rooted = (hd path = CHR ''/'');
             out = clean_loop rooted (if rooted then 1 else 0)
                     (if rooted then ''/'' else [])
                     (if rooted then tl path else path)
         in if out = [] then ''.'' else out))"

text \<open>
  \<open>path.Join(elem...)\<close>: the elements from the first non-empty one on, joined with
  slashes, then cleaned; the empty string when every element is empty.
\<close>

fun join_slash :: "string list \<Rightarrow> string" where
  "join_slash [] = []"
| "join_slash [e] = e"
| "join_slash (e # es) = e @ ''/'' @ join_slash es"

definition Join :: "string list \<Rightarrow> string" where
  "Join elem =
     (case dropWhile (\<lambda>e. e = []) elem of
        [] \<Rightarrow> []
      | es \<Rightarrow> Clean (join_slash es))"


subsection \<open>\<open>docker.ParseRepositoryTag\<close> (go-dockerclient)\<close>

text \<open>
  Splits \<open>repo:tag\<close>, ignoring a digest: the part before the first \<open>@\<close> is cut at its
  last colon, unless what follows that colon contains a slash (a registry port).
\<close>

definition ParseRepositoryTag :: "string \<Rightarrow> string \<times> string" where
  "ParseRepositoryTag repoTag =
     (let repoTag' = takeWhile (\<lambda>x. x \<noteq> CHR ''@'') repoTag
      in case LastIndexByte repoTag' (CHR '':'') of
           None \<Rightarrow> (repoTag', [])
         | Some n \<Rightarrow>
             (let tag = drop (Suc n) repoTag'
              in if \<not> Contains tag ''/'' then (take n repoTag', tag) else (repoTag', [])))"

section \<open>Data model\<close>

text \<open>
  A Go \<open>error\<close> is \<open>None\<close> when nil. The three sentinels of the package are compared
  by identity, so an engine error with the same text is a different value.
\<close>

datatype error =
  ErrImageNotFound
| ErrContainerNotFound
| ErrContainerExecutionFailed
| EngineError string

fun Error :: "error \<Rightarrow> string" where
  "Error ErrImageNotFound = ''provision: image not found''"
| "Error ErrContainerNotFound = ''provision: container not found''"
| "Error ErrContainerExecutionFailed = ''provision: container exited with failure''"
| "Error (EngineError msg) = msg"

record AuthConfiguration =
  Username :: string
  Password :: string
  Email :: string
  ServerAddress :: string
  IdentityToken :: string
  RegistryToken :: string

record AuthStatus =
  AuthStatus_Status :: string
  AuthStatus_IdentityToken :: string

typedecl IaasImpl

record BuildOptions =
  ContextDir :: string
  Dockerfile :: string
  DoNotUsePrefixImageName :: bool
  ImageName :: string
  RemoteURI :: string
  StdIN :: string
  Iaas :: "IaasImpl option"
  Auth :: AuthConfiguration
  ForcePull :: bool

record BuildImageOptions =
  BuildImage_Name :: string
  BuildImage_Dockerfile :: string
  BuildImage_SuppressOutput :: bool
  BuildImage_ContextDir :: string
  BuildImage_Remote :: string
  BuildImage_Auth :: AuthConfiguration

record PullImageOptions =
  Repository :: string
  Tag :: string

record APIContainers =
  ID :: string
  Image :: string
  Command :: string

record AttachToContainerOptions =
  Attach_Container :: string
  Attach_RawTerminal :: bool
  Attach_Stream :: bool
  Attach_Stdin :: bool
  Attach_Stderr :: bool
  Attach_Stdout :: bool
  Attach_Logs :: bool
  Attach_InputStream :: "string option"
  Attach_ErrorStream :: bool
  Attach_OutputStream :: bool

record LogsOptions =
  Logs_Container :: string
  Logs_Stdout :: bool
  Logs_Stderr :: bool

text \<open>
  A \<open>*bytes.Buffer\<close> is \<open>None\<close> when nil and \<open>Some\<close> of its contents otherwise.
\<close>

type_synonym Buffer = "string option"

section \<open>The container engine\<close>

text \<open>
  \<open>*docker.Client\<close> is the connection to an engine outside the program. It is a
  parameter of the model: a record of the calls the package makes, each a function of
  the arguments and the engine's state \<open>'s\<close>, returning what the call returns and the
  engine's next state. \<open>BuildImage\<close> and \<open>Logs\<close> also return the bytes the engine
  writes into the output streams they are given. The writers handed to
  \<open>AttachToContainerNonBlocking\<close> are recorded by whether they are non-nil.
\<close>

record 's Client =
  AuthCheck :: "AuthConfiguration \<Rightarrow> 's \<Rightarrow> (AuthStatus \<times> error option) \<times> 's"
  BuildImage :: "BuildImageOptions \<Rightarrow> 's \<Rightarrow> (string \<times> error option) \<times> 's"
  PullImage :: "PullImageOptions \<Rightarrow> AuthConfiguration \<Rightarrow> 's \<Rightarrow> error option \<times> 's"
  ListContainers :: "bool \<Rightarrow> 's \<Rightarrow> (APIContainers list \<times> error option) \<times> 's"
  StartContainer :: "string \<Rightarrow> 's \<Rightarrow> error option \<times> 's"
  AttachToContainerNonBlocking :: "AttachToContainerOptions \<Rightarrow> 's \<Rightarrow> error option \<times> 's"
  WaitContainer :: "string \<Rightarrow> 's \<Rightarrow> (int \<times> error option) \<times> 's"
  Logs :: "LogsOptions \<Rightarrow> 's \<Rightarrow> ((string \<times> string) \<times> error option) \<times> 's"

text \<open>
  Every engine call is logged, in program order, with its arguments. The calls made
  on behalf of a \<open>*BuildOptions\<close> also log the value \<open>*opts\<close> has at the moment of the
  call (their last argument).
\<close>

datatype call =
  Call_AuthCheck AuthConfiguration BuildOptions
| Call_BuildImage BuildImageOptions BuildOptions
| Call_PullImage PullImageOptions AuthConfiguration BuildOptions
| Call_ListContainers bool
| Call_StartContainer string
| Call_Attach AttachToContainerOptions
| Call_WaitContainer string
| Call_Logs LogsOptions

type_synonym 's world = "'s \<times> call list"

fun opts_at :: "call \<Rightarrow> BuildOptions option" where
  "opts_at (Call_AuthCheck a opts) = Some opts"
| "opts_at (Call_BuildImage b opts) = Some opts"
| "opts_at (Call_PullImage p a opts) = Some opts"
| "opts_at c = None"

fun is_pull :: "call \<Rightarrow> bool" where
  "is_pull (Call_PullImage p a opts) = True"
| "is_pull c = False"

fun is_wait :: "call \<Rightarrow> bool" where
  "is_wait (Call_WaitContainer i) = True"
| "is_wait c = False"

definition client_AuthCheck ::
  "'s Client \<Rightarrow> BuildOptions \<Rightarrow> 's world \<Rightarrow> (AuthStatus \<times> error option) \<times> 's world" where
  "client_AuthCheck client opts w =
     (case AuthCheck client (Auth opts) (fst w) of
        (r, s') \<Rightarrow> (r, (s', snd w @ [Call_AuthCheck (Auth opts) opts])))"

definition client_BuildImage ::
  "'s Client \<Rightarrow> BuildImageOptions \<Rightarrow> BuildOptions \<Rightarrow> 's world
     \<Rightarrow> (string \<times> error option) \<times> 's world" where
  "client_BuildImage client b opts w =
     (case BuildImage client b (fst w) of
        (r, s') \<Rightarrow> (r, (s', snd w @ [Call_BuildImage b opts])))"

definition client_PullImage ::
  "'s Client \<Rightarrow> PullImageOptions \<Rightarrow> BuildOptions \<Rightarrow> 's world \<Rightarrow> error option \<times> 's world" where
  "client_PullImage client p opts w =
     (case PullImage client p (Auth opts) (fst w) of
        (r, s') \<Rightarrow> (r, (s', snd w @ [Call_PullImage p (Auth opts) opts])))"

definition client_ListContainers ::
  "'s Client \<Rightarrow> bool \<Rightarrow> 's world \<Rightarrow> (APIContainers list \<times> error option) \<times> 's world" where
  "client_ListContainers client all w =
     (case ListContainers client all (fst w) of
        (r, s') \<Rightarrow> (r, (s', snd w @ [Call_ListContainers all])))"

definition client_StartContainer ::
  "'s Client \<Rightarrow> string \<Rightarrow> 's world \<Rightarrow> error option \<times> 's world" where
  "client_StartContainer client containerID w =
     (case StartContainer client containerID (fst w) of
        (r, s') \<Rightarrow> (r, (s', snd w @ [Call_StartContainer containerID])))"

definition client_Attach ::
  "'s Client \<Rightarrow> AttachToContainerOptions \<Rightarrow> 's world \<Rightarrow> error option \<times> 's world" where
  "client_Attach client a w =
     (case AttachToContainerNonBlocking client a (fst w) of
        (r, s') \<Rightarrow> (r, (s', snd w @ [Call_Attach a])))"

definition client_WaitContainer ::
  "'s Client \<Rightarrow> string \<Rightarrow> 's world \<Rightarrow> (int \<times> error option) \<times> 's world" where
  "client_WaitContainer client containerID w =
     (case WaitContainer client containerID (fst w) of
        (r, s') \<Rightarrow> (r, (s', snd w @ [Call_WaitContainer containerID])))"

definition client_Logs ::
  "'s Client \<Rightarrow> LogsOptions \<Rightarrow> 's world \<Rightarrow> ((string \<times> string) \<times> error option) \<times> 's world" where
  "client_Logs client l w =
     (case Logs client l (fst w) of
        (r, s') \<Rightarrow> (r, (s', snd w @ [Call_Logs l])))"

section \<open>Image resolution\<close>

text \<open>\<open>GetImageName\<close>: \<open>path.Join("gofn", opts.ImageName)\<close> unless the prefix is opted out.\<close>

definition GetImageName :: "BuildOptions \<Rightarrow> string" where
  "GetImageName opts =
     (if DoNotUsePrefixImageName opts then ImageName opts
      else Join [''gofn'', ImageName opts])"

text \<open>
  \<open>auth\<close> writes through the pointer \<open>opts\<close>; the model returns the options as they
  are when the function returns, next to the error. Here and below \<open>client\<close> and
  \<open>opts\<close> are taken to be non-nil pointers.
\<close>

definition auth ::
  "'s Client \<Rightarrow> BuildOptions \<Rightarrow> 's world \<Rightarrow> error option \<times> BuildOptions \<times> 's world" where
  "auth client opts w =
     (if (Email (Auth opts) \<noteq> [] \<or> Username (Auth opts) \<noteq> []) \<and> Password (Auth opts) \<noteq> [] then
        (let opts1 =
               (if ServerAddress (Auth opts) = []
                then opts\<lparr>Auth := (Auth opts)\<lparr>ServerAddress := ''https://index.docker.io/v1/''\<rparr>\<rparr>
                else opts);
             ((status, err), w1) = client_AuthCheck client opts1 w
         in if err \<noteq> None then (err, opts1, w1)
            else (None,
                  opts1\<lparr>Auth := (Auth opts1)\<lparr>IdentityToken := AuthStatus_IdentityToken status\<rparr>\<rparr>,
                  w1))
      else (None, opts, w))"

definition parseDockerImage :: "string \<Rightarrow> string \<times> string" where
  "parseDockerImage img =
     (let (repo, tag) = ParseRepositoryTag img
      in if tag \<noteq> [] then (repo, tag)
         else if IndexByte img (CHR ''@'') \<noteq> None then (img, tag)
         else (repo, ''latest''))"

definition FnPull :: "'s Client \<Rightarrow> BuildOptions \<Rightarrow> 's world \<Rightarrow> error option \<times> 's world" where
  "FnPull client opts w =
     (let (repo, tag) = parseDockerImage (GetImageName opts)
      in client_PullImage client \<lparr>Repository = repo, Tag = tag\<rparr> opts w)"

text \<open>
  \<open>FnImageBuild\<close> returns \<open>(Name, Stdout, err)\<close>; the model adds the options as the
  function leaves them and the world after its engine calls. \<open>Stdout\<close> is the buffer
  the build wrote into, and stays nil on every early return.
\<close>

definition FnImageBuild ::
  "'s Client \<Rightarrow> BuildOptions \<Rightarrow> 's world
     \<Rightarrow> (string \<times> Buffer \<times> error option) \<times> BuildOptions \<times> 's world" where
  "FnImageBuild client opts w =
     (let opts1 = (if Dockerfile opts = [] then opts\<lparr>Dockerfile := ''Dockerfile''\<rparr> else opts);
          opts2 = (if ContextDir opts1 = [] \<and> RemoteURI opts1 = []
                   then opts1\<lparr>ContextDir := ''./''\<rparr> else opts1);
          (err, opts3, w1) = auth client opts2 w
      in if err \<noteq> None then (([], None, err), opts3, w1)
         else
           (let Name = GetImageName opts3
            in if ForcePull opts3 then
                 (let (err, w2) = FnPull client opts3 w1 in ((Name, None, err), opts3, w2))
               else
                 (let ((stdout, err), w2) =
                        client_BuildImage client
                          \<lparr>BuildImage_Name = Name,
                           BuildImage_Dockerfile = Dockerfile opts3,
                           BuildImage_SuppressOutput = True,
                           BuildImage_ContextDir = ContextDir opts3,
                           BuildImage_Remote = RemoteURI opts3,
                           BuildImage_Auth = Auth opts3\<rparr> opts3 w1
                  in case err of
                       None \<Rightarrow> ((Name, Some stdout, None), opts3, w2)
                     | Some e \<Rightarrow>
                         if \<not> Contains (Error e) ''Cannot locate specified Dockerfile:''
                         then ((Name, None, err), opts3, w2)
                         else
                           (let (err, w3) = FnPull client opts3 w2
                            in if err \<noteq> None then ((Name, None, err), opts3, w3)
                               else ((Name, Some stdout, None), opts3, w3)))))"

section \<open>Container lookup\<close>

text \<open>The scanning loops of \<open>FnFindContainer\<close> and \<open>FnListContainers\<close>.\<close>

fun find_by_image :: "APIContainers list \<Rightarrow> string \<Rightarrow> APIContainers option" where
  "find_by_image [] imageName = None"
| "find_by_image (v # vs) imageName =
     (if Image v = imageName then Some v else find_by_image vs imageName)"

text \<open>
  \<open>FnFindContainer\<close> returns the container found, or the error with the zero
  container; the model returns one or the other.
\<close>

definition FnFindContainer ::
  "'s Client \<Rightarrow> string \<Rightarrow> 's world \<Rightarrow> (error + APIContainers) \<times> 's world" where
  "FnFindContainer client imageName w =
     (let ((containers, err), w1) = client_ListContainers client True w
      in case err of
           Some e \<Rightarrow> (Inl e, w1)
         | None \<Rightarrow>
             (let imageName' = (if \<not> HasPrefix imageName ''gofn'' then ''gofn/'' @ imageName
                                else imageName)
              in case find_by_image containers imageName' of
                   Some v \<Rightarrow> (Inr v, w1)
                 | None \<Rightarrow> (Inl ErrContainerNotFound, w1)))"

fun collect_gofn :: "APIContainers list \<Rightarrow> APIContainers list \<Rightarrow> APIContainers list" where
  "collect_gofn containers [] = containers"
| "collect_gofn containers (container # hostContainers) =
     collect_gofn
       (if HasPrefix (Image container) ''gofn/'' then containers @ [container] else containers)
       hostContainers"

definition FnListContainers ::
  "'s Client \<Rightarrow> 's world \<Rightarrow> (APIContainers list \<times> error option) \<times> 's world" where
  "FnListContainers client w =
     (let ((hostContainers, err), w1) = client_ListContainers client True w
      in if err \<noteq> None then (([], err), w1)
         else ((collect_gofn [] hostContainers, None), w1))"

section \<open>Execution\<close>

definition FnStart :: "'s Client \<Rightarrow> string \<Rightarrow> 's world \<Rightarrow> error option \<times> 's world" where
  "FnStart client containerID w = client_StartContainer client containerID w"

text \<open>
  \<open>FnAttach\<close>: the waiter it returns is dropped by its only caller and is not
  modelled; \<open>stdin\<close> is the contents of the reader, and the two writers are given by
  whether they are non-nil.
\<close>

definition FnAttach ::
  "'s Client \<Rightarrow> string \<Rightarrow> string option \<Rightarrow> bool \<Rightarrow> bool \<Rightarrow> 's world \<Rightarrow> error option \<times> 's world" where
  "FnAttach client containerID stdin stdout stderr w =
     client_Attach client
       \<lparr>Attach_Container = containerID,
        Attach_RawTerminal = True,
        Attach_Stream = True,
        Attach_Stdin = True,
        Attach_Stderr = True,
        Attach_Stdout = True,
        Attach_Logs = True,
        Attach_InputStream = stdin,
        Attach_ErrorStream = stderr,
        Attach_OutputStream = stdout\<rparr> w"

text \<open>
  \<open>FnLogs\<close> appends what the engine writes to the contents of the two writers.
\<close>

definition FnLogs ::
  "'s Client \<Rightarrow> string \<Rightarrow> string \<Rightarrow> string \<Rightarrow> 's world
     \<Rightarrow> (string \<times> string \<times> error option) \<times> 's world" where
  "FnLogs client containerID stdout stderr w =
     (let (((out, errout), err), w1) =
            client_Logs client
              \<lparr>Logs_Container = containerID, Logs_Stdout = True, Logs_Stderr = True\<rparr> w
      in ((stdout @ out, stderr @ errout, err), w1))"

text \<open>
  \<open>FnWaitContainer\<close> makes an unbuffered channel and starts a goroutine that calls
  \<open>client.WaitContainer\<close> and then executes its send statements in order; each send
  blocks until the value is received. \<open>wait_sends\<close> is the sequence of values the
  goroutine sends on the channel, in program order, for a given result of the wait
  call: none of the three send statements is followed by a return.
\<close>

definition wait_sends :: "int \<times> error option \<Rightarrow> error option list" where
  "wait_sends r =
     (case r of (code, err) \<Rightarrow>
        (if err \<noteq> None then [err] else [])
        @ (if code \<noteq> 0 then [Some ErrContainerExecutionFailed] else [])
        @ [None])"

text \<open>
  The channel is modelled by the values still to be sent on it. The wait call is the
  goroutine's first action and the only engine call it makes.
\<close>

type_synonym chan = "error option list"

definition FnWaitContainer :: "'s Client \<Rightarrow> string \<Rightarrow> 's world \<Rightarrow> chan \<times> 's world" where
  "FnWaitContainer client containerID w =
     (let (r, w1) = client_WaitContainer client containerID w in (wait_sends r, w1))"

text \<open>
  A receive takes the next value sent; on a channel with no sender left it blocks
  forever (\<open>None\<close>).
\<close>

definition recv :: "chan \<Rightarrow> (error option \<times> chan) option" where
  "recv ch = (case ch of [] \<Rightarrow> None | v # rest \<Rightarrow> Some (v, rest))"

text \<open>The values a caller gets that receives \<open>n\<close> times from the channel.\<close>

definition received :: "nat \<Rightarrow> chan \<Rightarrow> error option list" where
  "received n ch = take n ch"

text \<open>
  \<open>FnRun\<close> returns \<open>(Stdout, Stderr, err)\<close>; the result is \<open>None\<close> when the function
  never returns because its receive blocks forever.
\<close>

definition FnRun ::
  "'s Client \<Rightarrow> string \<Rightarrow> string \<Rightarrow> 's world
     \<Rightarrow> (Buffer \<times> Buffer \<times> error option) option \<times> 's world" where
  "FnRun client containerID input w =
     (let (err, w1) = FnStart client containerID w
      in if err \<noteq> None then (Some (None, None, err), w1)
         else
           (let (err, w2) = FnAttach client containerID (Some input) False False w1
            in if err \<noteq> None then (Some (None, None, err), w2)
               else
                 (let (e, w3) = FnWaitContainer client containerID w2
                  in case recv e of
                       None \<Rightarrow> (None, w3)
                     | Some (err, e') \<Rightarrow>
                         (let ((stdout, stderr, logerr), w4) = FnLogs client containerID [] [] w3
                          in (Some (Some stdout, Some stderr, err), w4)))))"

section \<open>Auxiliary notions for the statements\<close>



text \<open>
  An engine on which every call succeeds, with a call counter as its state, and a
  \<open>BuildOptions\<close> value with only the image name set; the examples below vary them.
\<close>

definition ok_client :: "nat Client" where
  "ok_client =
     \<lparr>AuthCheck = (\<lambda>a s.
        ((\<lparr>AuthStatus_Status = ''Login Succeeded'', AuthStatus_IdentityToken = ''tok''\<rparr>, None),
         Suc s)),
      BuildImage = (\<lambda>b s. ((''built'', None), Suc s)),
      PullImage = (\<lambda>p a s. (None, Suc s)),
      ListContainers = (\<lambda>all s. (([], None), Suc s)),
      StartContainer = (\<lambda>i s. (None, Suc s)),
      AttachToContainerNonBlocking = (\<lambda>a s. (None, Suc s)),
      WaitContainer = (\<lambda>i s. ((0, None), Suc s)),
      Logs = (\<lambda>l s. (((''out'', ''err''), None), Suc s))\<rparr>"

definition no_auth :: AuthConfiguration where
  "no_auth =
     \<lparr>Username = [], Password = [], Email = [], ServerAddress = [],
      IdentityToken = [], RegistryToken = []\<rparr>"

definition python_opts :: BuildOptions where
  "python_opts =
     \<lparr>ContextDir = [], Dockerfile = [], DoNotUsePrefixImageName = False,
      ImageName = ''python'', RemoteURI = [], StdIN = [], Iaas = None,
      Auth = no_auth, ForcePull = False\<rparr>"

definition cred_opts :: BuildOptions where
  "cred_opts = python_opts\<lparr>Auth := no_auth\<lparr>Username := ''u'', Password := ''p''\<rparr>\<rparr>"

definition private_opts :: BuildOptions where
  "private_opts =
     python_opts\<lparr>Auth := no_auth\<lparr>Username := ''u'', Password := ''p'',
                                   ServerAddress := ''registry.example.com''\<rparr>\<rparr>"

text \<open>
  An engine whose build fails with the given error, and an engine on which the
  container exits with the given code and the log call fails after writing.
\<close>

definition build_fails :: "string \<Rightarrow> nat Client" where
  "build_fails msg = ok_client\<lparr>BuildImage := (\<lambda>b s. (([], Some (EngineError msg)), Suc s))\<rparr>"

definition exits_with :: "int \<Rightarrow> nat Client" where
  "exits_with code =
     ok_client\<lparr>WaitContainer := (\<lambda>i s. ((code, None), Suc s)),
               Logs := (\<lambda>l s. (((''out'', ''err''), Some (EngineError ''logs: EOF'')), Suc s))\<rparr>"

text \<open>The engine calls a function made: the calls logged after the world it started in.\<close>

definition new_calls :: "'s world \<Rightarrow> 's world \<Rightarrow> call list" where
  "new_calls w w' = drop (length (snd w)) (snd w')"

text \<open>
  The options after the first two statements of \<open>FnImageBuild\<close>, and the arguments
  of its build call and of the pull call of \<open>FnPull\<close>.
\<close>

definition with_defaults :: "BuildOptions \<Rightarrow> BuildOptions" where
  "with_defaults opts =
     opts\<lparr>Dockerfile := (if Dockerfile opts = [] then ''Dockerfile'' else Dockerfile opts),
          ContextDir := (if ContextDir opts = [] \<and> RemoteURI opts = [] then ''./''
                         else ContextDir opts)\<rparr>"

definition build_request :: "BuildOptions \<Rightarrow> BuildImageOptions" where
  "build_request opts =
     \<lparr>BuildImage_Name = GetImageName opts,
      BuildImage_Dockerfile = Dockerfile opts,
      BuildImage_SuppressOutput = True,
      BuildImage_ContextDir = ContextDir opts,
      BuildImage_Remote = RemoteURI opts,
      BuildImage_Auth = Auth opts\<rparr>"

definition pull_request :: "BuildOptions \<Rightarrow> PullImageOptions" where
  "pull_request opts =
     \<lparr>Repository = fst (parseDockerImage (GetImageName opts)),
      Tag = snd (parseDockerImage (GetImageName opts))\<rparr>"

text \<open>The condition under which \<open>auth\<close> talks to the registry.\<close>

definition has_credentials :: "AuthConfiguration \<Rightarrow> bool" where
  "has_credentials a = ((Email a \<noteq> [] \<or> Username a \<noteq> []) \<and> Password a \<noteq> [])"

text \<open>
  The engine calls \<open>auth\<close> makes for given options: one auth check when credentials
  are present, none otherwise.
\<close>

definition auth_calls :: "BuildOptions \<Rightarrow> call list" where
  "auth_calls opts =
     (if has_credentials (Auth opts) then
        (let opts1 =
               (if ServerAddress (Auth opts) = []
                then opts\<lparr>Auth := (Auth opts)\<lparr>ServerAddress := ''https://index.docker.io/v1/''\<rparr>\<rparr>
                else opts)
         in [Call_AuthCheck (Auth opts1) opts1])
      else [])"

text \<open>A logged call made while \<open>opts.ContextDir\<close> was \<open>./\<close>.\<close>

definition ctx_set :: "call \<Rightarrow> bool" where
  "ctx_set c = (case opts_at c of None \<Rightarrow> False | Some opts \<Rightarrow> ContextDir opts = ''./'')"

text \<open>The arguments of the attach and log calls of \<open>FnRun\<close>.\<close>

definition run_attach :: "string \<Rightarrow> string \<Rightarrow> AttachToContainerOptions" where
  "run_attach containerID input =
     \<lparr>Attach_Container = containerID, Attach_RawTerminal = True, Attach_Stream = True,
      Attach_Stdin = True, Attach_Stderr = True, Attach_Stdout = True, Attach_Logs = True,
      Attach_InputStream = Some input, Attach_ErrorStream = False,
      Attach_OutputStream = False\<rparr>"

definition run_logs :: "string \<Rightarrow> LogsOptions" where
  "run_logs containerID =
     \<lparr>Logs_Container = containerID, Logs_Stdout = True, Logs_Stderr = True\<rparr>"

section \<open>Properties of the library functions\<close>











lemma collect_gofn_filter:
  "collect_gofn acc cs = acc @ filter (\<lambda>c. HasPrefix (Image c) ''gofn/'') cs"
  by (induction cs arbitrary: acc) auto

section \<open>Image names\<close>




section \<open>Listing containers\<close>

text \<open>
  Claim C7: whatever list of containers the engine reports, \<open>FnListContainers\<close>
  returns exactly the containers of that list whose image name starts with \<open>gofn/\<close>,
  in the reported order, and no error.
\<close>

theorem FnListContainers_only_prefixed:
  assumes "ListContainers client True (fst w) = ((hostContainers, None), s')"
  shows "FnListContainers client w =
           ((filter (\<lambda>c. prefix ''gofn/'' (Image c)) hostContainers, None),
            (s', snd w @ [Call_ListContainers True]))"
  using assms
  by (simp add: FnListContainers_def client_ListContainers_def collect_gofn_filter
      HasPrefix_def)

theorem FnListContainers_only_prefixed_witness:
  "FnListContainers
     (ok_client\<lparr>ListContainers := (\<lambda>all s.
        (([\<lparr>ID = ''1'', Image = ''gofn/python'', Command = ''a''\<rparr>,
           \<lparr>ID = ''2'', Image = ''redis'', Command = ''b''\<rparr>,
           \<lparr>ID = ''3'', Image = ''gofnx'', Command = ''c''\<rparr>,
           \<lparr>ID = ''4'', Image = ''gofn/go'', Command = ''d''\<rparr>], None), Suc s))\<rparr>)
     (0, [])
   = (([\<lparr>ID = ''1'', Image = ''gofn/python'', Command = ''a''\<rparr>,
        \<lparr>ID = ''4'', Image = ''gofn/go'', Command = ''d''\<rparr>], None),
      (1, [Call_ListContainers True]))"
  using FnListContainers_only_prefixed
    [of "ok_client\<lparr>ListContainers := (\<lambda>all s.
        (([\<lparr>ID = ''1'', Image = ''gofn/python'', Command = ''a''\<rparr>,
           \<lparr>ID = ''2'', Image = ''redis'', Command = ''b''\<rparr>,
           \<lparr>ID = ''3'', Image = ''gofnx'', Command = ''c''\<rparr>,
           \<lparr>ID = ''4'', Image = ''gofn/go'', Command = ''d''\<rparr>], None), Suc s))\<rparr>"
        "(0, [])"]
  by (simp add: ok_client_def)

section \<open>Running a container\<close>

lemma recv_wait_sends:
  "recv (wait_sends (code, err)) =
     Some (if err \<noteq> None then err
           else if code \<noteq> 0 then Some ErrContainerExecutionFailed else None,
           tl (wait_sends (code, err)))"
  by (simp add: recv_def wait_sends_def)

text \<open>The goroutine sends a single value only when the wait call reports exit code 0.\<close>

lemma wait_sends_single: "length (wait_sends (code, err)) = 1 \<longleftrightarrow> code = 0 \<and> err = None"
  by (simp add: wait_sends_def)

text \<open>
  Claim C1 says that exactly one value is sent on the channel of \<open>FnWaitContainer\<close>.
  The goroutine does not return after a send: when the container exits with code 1
  it sends the sentinel and then nil, and when the wait call fails it sends the error
  and then nil. A caller that receives twice gets both values.
\<close>

theorem FnWaitContainer_sends_twice:
  "FnWaitContainer (ok_client\<lparr>WaitContainer := (\<lambda>i s. ((1, None), Suc s))\<rparr>) ''c1'' (0, [])
     = ([Some ErrContainerExecutionFailed, None], (1, [Call_WaitContainer ''c1''])) \<and>
   received 2
     (fst (FnWaitContainer (ok_client\<lparr>WaitContainer := (\<lambda>i s. ((1, None), Suc s))\<rparr>)
        ''c1'' (0, [])))
     = [Some ErrContainerExecutionFailed, None] \<and>
   fst (FnWaitContainer
     (ok_client\<lparr>WaitContainer := (\<lambda>i s. ((0, Some (EngineError ''EOF'')), Suc s))\<rparr>)
        ''c1'' (0, []))
     = [Some (EngineError ''EOF''), None]"
  by (simp add: FnWaitContainer_def client_WaitContainer_def wait_sends_def ok_client_def
      received_def)

text \<open>
  Claim C2: when the start, attach and wait calls succeed, \<open>FnRun\<close> returns the bytes
  the log call wrote to stdout and stderr, with a nil error if the container exited
  with code 0 and with \<open>ErrContainerExecutionFailed\<close> otherwise; whatever error the
  log call returns (\<open>logerr\<close>) has no part in the result.
\<close>

theorem FnRun_outcome:
  assumes "StartContainer client containerID (fst w) = (None, s1)"
    and "AttachToContainerNonBlocking client (run_attach containerID input) s1 = (None, s2)"
    and "WaitContainer client containerID s2 = ((code, None), s3)"
    and "Logs client (run_logs containerID) s3 = (((out, errout), logerr), s4)"
  shows "FnRun client containerID input w =
           (Some (Some out, Some errout,
                  if code = 0 then None else Some ErrContainerExecutionFailed),
            (s4, snd w @ [Call_StartContainer containerID,
                          Call_Attach (run_attach containerID input),
                          Call_WaitContainer containerID,
                          Call_Logs (run_logs containerID)]))"
  using assms
  by (simp add: FnRun_def FnStart_def FnAttach_def FnWaitContainer_def FnLogs_def
      client_StartContainer_def client_Attach_def client_WaitContainer_def client_Logs_def
      run_attach_def run_logs_def recv_wait_sends)

theorem FnRun_outcome_witness:
  "fst (FnRun (exits_with 0) ''c1'' ''in'' (0, [])) = Some (Some ''out'', Some ''err'', None) \<and>
   fst (FnRun (exits_with 3) ''c1'' ''in'' (0, []))
     = Some (Some ''out'', Some ''err'', Some ErrContainerExecutionFailed)"
  using
    FnRun_outcome [where client = "exits_with 0" and containerID = "''c1''" and input = "''in''"
      and w = "(0, [])" and ?s1.0 = 1 and ?s2.0 = 2 and code = 0 and ?s3.0 = 3
      and out = "''out''" and errout = "''err''" and logerr = "Some (EngineError ''logs: EOF'')"
      and ?s4.0 = 4]
    FnRun_outcome [where client = "exits_with 3" and containerID = "''c1''" and input = "''in''"
      and w = "(0, [])" and ?s1.0 = 1 and ?s2.0 = 2 and code = 3 and ?s3.0 = 3
      and out = "''out''" and errout = "''err''" and logerr = "Some (EngineError ''logs: EOF'')"
      and ?s4.0 = 4]
  by (simp add: exits_with_def ok_client_def)

text \<open>
  Claim C9: when the start call or the attach call returns an error, \<open>FnRun\<close> returns
  that error with nil stdout and stderr, and the only engine calls it made are the
  start call, or the start and attach calls: no wait and no log retrieval. And
  whenever \<open>FnRun\<close> returns a non-nil buffer, it has made the wait call.
\<close>

theorem FnRun_early_errors:
  "(StartContainer client containerID (fst w) = (Some e, s1) \<longrightarrow>
      FnRun client containerID input w =
        (Some (None, None, Some e), (s1, snd w @ [Call_StartContainer containerID]))) \<and>
   (StartContainer client containerID (fst w) = (None, s1) \<and>
    AttachToContainerNonBlocking client (run_attach containerID input) s1 = (Some e, s2) \<longrightarrow>
      FnRun client containerID input w =
        (Some (None, None, Some e),
         (s2, snd w @ [Call_StartContainer containerID,
                       Call_Attach (run_attach containerID input)]))) \<and>
   (fst (FnRun client containerID input w) = Some (Stdout, Stderr, err) \<and>
    (Stdout \<noteq> None \<or> Stderr \<noteq> None) \<longrightarrow>
      list_ex is_wait (new_calls w (snd (FnRun client containerID input w))))"
  by (auto simp: FnRun_def FnStart_def FnAttach_def FnWaitContainer_def FnLogs_def
      client_StartContainer_def client_Attach_def client_WaitContainer_def client_Logs_def
      run_attach_def run_logs_def recv_wait_sends new_calls_def Let_def
      split: prod.splits option.splits if_splits)

theorem FnRun_early_errors_witness:
  "FnRun (ok_client\<lparr>StartContainer := (\<lambda>i s. (Some (EngineError ''no such container''), Suc s))\<rparr>)
     ''c1'' ''in'' (0, [])
     = (Some (None, None, Some (EngineError ''no such container'')),
        (1, [Call_StartContainer ''c1''])) \<and>
   FnRun (ok_client\<lparr>AttachToContainerNonBlocking :=
            (\<lambda>a s. (Some (EngineError ''hijack failed''), Suc s))\<rparr>)
     ''c1'' ''in'' (0, [])
     = (Some (None, None, Some (EngineError ''hijack failed'')),
        (2, [Call_StartContainer ''c1'', Call_Attach (run_attach ''c1'' ''in'')])) \<and>
   fst (FnRun ok_client ''c1'' ''in'' (0, [])) = Some (Some ''out'', Some ''err'', None) \<and>
   list_ex is_wait (new_calls (0, []) (snd (FnRun ok_client ''c1'' ''in'' (0, []))))"
proof -
  have run: "fst (FnRun ok_client ''c1'' ''in'' (0, [])) = Some (Some ''out'', Some ''err'', None)"
    by (simp add: FnRun_def FnStart_def FnAttach_def FnWaitContainer_def FnLogs_def
        client_StartContainer_def client_Attach_def client_WaitContainer_def client_Logs_def
        recv_def wait_sends_def ok_client_def)
  show ?thesis
    using run
      FnRun_early_errors [where
        client = "ok_client\<lparr>StartContainer :=
                    (\<lambda>i s. (Some (EngineError ''no such container''), Suc s))\<rparr>"
        and containerID = "''c1''" and input = "''in''" and w = "(0, [])"
        and e = "EngineError ''no such container''" and ?s1.0 = 1]
      FnRun_early_errors [where
        client = "ok_client\<lparr>AttachToContainerNonBlocking :=
                    (\<lambda>a s. (Some (EngineError ''hijack failed''), Suc s))\<rparr>"
        and containerID = "''c1''" and input = "''in''" and w = "(0, [])"
        and e = "EngineError ''hijack failed''" and ?s1.0 = 1 and ?s2.0 = 2]
      FnRun_early_errors [where client = ok_client
        and containerID = "''c1''" and input = "''in''" and w = "(0, [])"
        and Stdout = "Some ''out''" and Stderr = "Some ''err''" and err = None]
    by (simp add: ok_client_def)
qed

section \<open>Finding a container by image name\<close>

text \<open>
  What \<open>FnFindContainer\<close> compares the images with, when the list call succeeds.
\<close>

lemma FnFindContainer_compares:
  assumes "ListContainers client True (fst w) = ((containers, None), s')"
  shows "fst (FnFindContainer client imageName w) =
           (case find_by_image containers
                   (if prefix ''gofn'' imageName then imageName else ''gofn/'' @ imageName) of
              Some v \<Rightarrow> Inr v
            | None \<Rightarrow> Inl ErrContainerNotFound)"
  using assms
  by (simp add: FnFindContainer_def client_ListContainers_def HasPrefix_def
      split: option.splits)

text \<open>
  Claim C6 says that a name not carrying the prefix \<open>gofn/\<close> gets it before the
  comparison. \<open>FnFindContainer\<close> tests for the prefix \<open>gofn\<close>, without the slash that
  it prepends and that \<open>FnListContainers\<close> tests for: the bare name \<open>gofnapp\<close> is
  compared unchanged, and the container of image \<open>gofn/gofnapp\<close> is not found, while
  the container of image \<open>gofn/python\<close> is found under the bare name \<open>python\<close>.
\<close>

theorem FnFindContainer_bare_name_not_normalized:
  "fst (FnFindContainer
     (ok_client\<lparr>ListContainers := (\<lambda>all s.
        (([\<lparr>ID = ''1'', Image = ''gofn/gofnapp'', Command = ''a''\<rparr>], None), Suc s))\<rparr>)
     ''gofnapp'' (0, [])) = Inl ErrContainerNotFound \<and>
   fst (FnFindContainer
     (ok_client\<lparr>ListContainers := (\<lambda>all s.
        (([\<lparr>ID = ''1'', Image = ''gofn/python'', Command = ''a''\<rparr>], None), Suc s))\<rparr>)
     ''python'' (0, [])) = Inr \<lparr>ID = ''1'', Image = ''gofn/python'', Command = ''a''\<rparr>"
  by (simp add: FnFindContainer_def client_ListContainers_def ok_client_def HasPrefix_def)

section \<open>Building and pulling images\<close>

lemma IndexByte_None: "IndexByte s c = None \<longleftrightarrow> c \<notin> set s"
  by (induction s) (auto split: option.splits)

lemma FnPull_request: "FnPull client opts w = client_PullImage client (pull_request opts) opts w"
  by (simp add: FnPull_def pull_request_def split: prod.splits)

text \<open>
  Claim C4: \<open>FnPull\<close> makes one pull call for the resolved name
  \<open>GetImageName opts\<close>. If the name has an explicit tag (\<open>ParseRepositoryTag\<close> finds
  one), the repository and tag of that split are sent unchanged; if it has no tag
  and contains the digest marker \<open>@\<close>, the full name is sent as the repository with
  an empty tag; if it has neither, the tag sent is \<open>latest\<close>.
\<close>

theorem FnPull_repository_tag:
  "(snd (ParseRepositoryTag (GetImageName opts)) \<noteq> [] \<longrightarrow>
      FnPull client opts w =
        client_PullImage client
          \<lparr>Repository = fst (ParseRepositoryTag (GetImageName opts)),
           Tag = snd (ParseRepositoryTag (GetImageName opts))\<rparr> opts w) \<and>
   (snd (ParseRepositoryTag (GetImageName opts)) = [] \<and> CHR ''@'' \<in> set (GetImageName opts) \<longrightarrow>
      FnPull client opts w =
        client_PullImage client \<lparr>Repository = GetImageName opts, Tag = []\<rparr> opts w) \<and>
   (snd (ParseRepositoryTag (GetImageName opts)) = [] \<and> CHR ''@'' \<notin> set (GetImageName opts) \<longrightarrow>
      FnPull client opts w =
        client_PullImage client
          \<lparr>Repository = fst (ParseRepositoryTag (GetImageName opts)), Tag = ''latest''\<rparr> opts w)"
  by (auto simp: FnPull_def parseDockerImage_def IndexByte_None split: prod.splits)

theorem FnPull_repository_tag_witness:
  "FnPull ok_client (python_opts\<lparr>ImageName := ''busybox@sha256:ab12''\<rparr>) (0, [])
     = (None, (1, [Call_PullImage \<lparr>Repository = ''gofn/busybox@sha256:ab12'', Tag = []\<rparr> no_auth
                     (python_opts\<lparr>ImageName := ''busybox@sha256:ab12''\<rparr>)])) \<and>
   FnPull ok_client python_opts (0, [])
     = (None, (1, [Call_PullImage \<lparr>Repository = ''gofn/python'', Tag = ''latest''\<rparr> no_auth
                     python_opts])) \<and>
   FnPull ok_client (python_opts\<lparr>ImageName := ''python:3.9''\<rparr>) (0, [])
     = (None, (1, [Call_PullImage \<lparr>Repository = ''gofn/python'', Tag = ''3.9''\<rparr> no_auth
                     (python_opts\<lparr>ImageName := ''python:3.9''\<rparr>)]))"
proof -
  have n1: "GetImageName (python_opts\<lparr>ImageName := ''busybox@sha256:ab12''\<rparr>) = ''gofn/busybox@sha256:ab12''"
    by (simp add: GetImageName_def python_opts_def Join_def Clean_def)
  have n2: "GetImageName python_opts = ''gofn/python''"
    by (simp add: GetImageName_def python_opts_def Join_def Clean_def)
  have n3: "GetImageName (python_opts\<lparr>ImageName := ''python:3.9''\<rparr>) = ''gofn/python:3.9''"
    by (simp add: GetImageName_def python_opts_def Join_def Clean_def)
  have p1: "ParseRepositoryTag ''gofn/busybox@sha256:ab12'' = (''gofn/busybox'', [])"
    by (simp add: ParseRepositoryTag_def)
  have p2: "ParseRepositoryTag ''gofn/python'' = (''gofn/python'', [])"
    by (simp add: ParseRepositoryTag_def)
  have p3: "ParseRepositoryTag ''gofn/python:3.9'' = (''gofn/python'', ''3.9'')"
    by (simp add: ParseRepositoryTag_def)
  show ?thesis
    using FnPull_repository_tag [of "python_opts\<lparr>ImageName := ''busybox@sha256:ab12''\<rparr>" ok_client "(0, [])"]
      FnPull_repository_tag [of python_opts ok_client "(0, [])"]
      FnPull_repository_tag [of "python_opts\<lparr>ImageName := ''python:3.9''\<rparr>" ok_client "(0, [])"]
    by (simp add: n1 n2 n3 p1 p2 p3 client_PullImage_def)
      (simp add: ok_client_def python_opts_def)
qed

lemma defaults_eq:
  "(if ContextDir (if Dockerfile opts = [] then opts\<lparr>Dockerfile := ''Dockerfile''\<rparr> else opts) = [] \<and>
       RemoteURI (if Dockerfile opts = [] then opts\<lparr>Dockerfile := ''Dockerfile''\<rparr> else opts) = []
    then (if Dockerfile opts = [] then opts\<lparr>Dockerfile := ''Dockerfile''\<rparr> else opts)
           \<lparr>ContextDir := ''./''\<rparr>
    else (if Dockerfile opts = [] then opts\<lparr>Dockerfile := ''Dockerfile''\<rparr> else opts))
   = with_defaults opts"
  by (simp add: with_defaults_def)

lemma FnImageBuild_unfold:
  "FnImageBuild client opts w =
     (case auth client (with_defaults opts) w of
        (err, opts3, w1) \<Rightarrow>
          if err \<noteq> None then (([], None, err), opts3, w1)
          else if ForcePull opts3 then
            (case FnPull client opts3 w1 of
               (err, w2) \<Rightarrow> ((GetImageName opts3, None, err), opts3, w2))
          else
            (case client_BuildImage client (build_request opts3) opts3 w1 of
               ((stdout, err), w2) \<Rightarrow>
                 (case err of
                    None \<Rightarrow> ((GetImageName opts3, Some stdout, None), opts3, w2)
                  | Some e \<Rightarrow>
                      if \<not> Contains (Error e) ''Cannot locate specified Dockerfile:''
                      then ((GetImageName opts3, None, err), opts3, w2)
                      else
                        (case FnPull client opts3 w2 of
                           (err, w3) \<Rightarrow>
                             if err \<noteq> None then ((GetImageName opts3, None, err), opts3, w3)
                             else ((GetImageName opts3, Some stdout, None), opts3, w3)))))"
  unfolding FnImageBuild_def Let_def defaults_eq build_request_def
  by (simp split: prod.splits)

lemma auth_ForcePull: "auth client opts w = (err, opts', w') \<Longrightarrow> ForcePull opts' = ForcePull opts"
  by (auto simp: auth_def Let_def split: if_splits prod.splits)

lemma auth_no_credentials:
  "\<not> has_credentials (Auth opts) \<Longrightarrow> auth client opts w = (None, opts, w)"
  by (auto simp: auth_def has_credentials_def)

lemma GetImageName_python: "GetImageName (with_defaults python_opts) = ''gofn/python''"
  by (simp add: GetImageName_def with_defaults_def python_opts_def Join_def Clean_def)

lemma pull_request_python:
  "pull_request (with_defaults python_opts) = \<lparr>Repository = ''gofn/python'', Tag = ''latest''\<rparr>"
  by (simp add: pull_request_def GetImageName_python parseDockerImage_def ParseRepositoryTag_def)

text \<open>
  \<open>auth\<close> logs exactly the calls of \<open>auth_calls\<close>, whatever it returns, and none of them
  is a pull.
\<close>

lemma auth_log:
  "auth client opts w = (err, opts', w') \<Longrightarrow> snd w' = snd w @ auth_calls opts"
  by (auto simp: auth_def auth_calls_def has_credentials_def client_AuthCheck_def Let_def
      split: if_splits prod.splits)

lemma auth_calls_no_pull: "filter is_pull (auth_calls opts) = []"
  by (simp add: auth_calls_def Let_def)

lemma new_calls_append [simp]: "new_calls w (s, snd w @ cs) = cs"
  by (simp add: new_calls_def)

text \<open>
  Claim C3: in a call of \<open>FnImageBuild\<close> with \<open>ForcePull\<close> unset that reaches the
  build call (the auth step returned no error), the engine calls of the whole
  invocation are those of the auth step (at most one auth check, never a pull), then
  the build call, then: if the build succeeds, nothing more; if the build fails with
  an error whose message does not contain \<open>Cannot locate specified Dockerfile:\<close>,
  nothing more, and that error is returned as it is; if the message contains it,
  exactly one pull, for the repository and tag of the name already resolved, whose
  outcome is the outcome of \<open>FnImageBuild\<close>. So the pulls among the calls of the
  invocation are that one pull in the last case and none in the other two.
\<close>

theorem FnImageBuild_fallback:
  assumes "\<not> ForcePull opts"
    and "auth client (with_defaults opts) w = (None, opts3, w1)"
    and "BuildImage client (build_request opts3) (fst w1) = ((out, berr), s2)"
    and "PullImage client (pull_request opts3) (Auth opts3) s2 = (perr, s3)"
  shows "(berr = None \<longrightarrow>
            FnImageBuild client opts w =
              ((GetImageName opts3, Some out, None), opts3,
               (s2, snd w @ auth_calls (with_defaults opts)
                      @ [Call_BuildImage (build_request opts3) opts3]))) \<and>
         (\<forall>e. berr = Some e \<and> \<not> Contains (Error e) ''Cannot locate specified Dockerfile:'' \<longrightarrow>
            FnImageBuild client opts w =
              ((GetImageName opts3, None, Some e), opts3,
               (s2, snd w @ auth_calls (with_defaults opts)
                      @ [Call_BuildImage (build_request opts3) opts3]))) \<and>
         (\<forall>e. berr = Some e \<and> Contains (Error e) ''Cannot locate specified Dockerfile:'' \<longrightarrow>
            FnImageBuild client opts w =
              ((GetImageName opts3, if perr = None then Some out else None, perr), opts3,
               (s3, snd w @ auth_calls (with_defaults opts)
                      @ [Call_BuildImage (build_request opts3) opts3,
                         Call_PullImage (pull_request opts3) (Auth opts3) opts3]))) \<and>
         filter is_pull (new_calls w (snd (snd (FnImageBuild client opts w)))) =
           (case berr of
              None \<Rightarrow> []
            | Some e \<Rightarrow>
                if Contains (Error e) ''Cannot locate specified Dockerfile:''
                then [Call_PullImage (pull_request opts3) (Auth opts3) opts3] else [])"
proof -
  have fp: "\<not> ForcePull opts3"
    using auth_ForcePull [OF assms(2)] assms(1) by (simp add: with_defaults_def)
  have w1: "snd w1 = snd w @ auth_calls (with_defaults opts)"
    using auth_log [OF assms(2)] .
  have eqs: "(berr = None \<longrightarrow>
            FnImageBuild client opts w =
              ((GetImageName opts3, Some out, None), opts3,
               (s2, snd w @ auth_calls (with_defaults opts)
                      @ [Call_BuildImage (build_request opts3) opts3]))) \<and>
         (\<forall>e. berr = Some e \<and> \<not> Contains (Error e) ''Cannot locate specified Dockerfile:'' \<longrightarrow>
            FnImageBuild client opts w =
              ((GetImageName opts3, None, Some e), opts3,
               (s2, snd w @ auth_calls (with_defaults opts)
                      @ [Call_BuildImage (build_request opts3) opts3]))) \<and>
         (\<forall>e. berr = Some e \<and> Contains (Error e) ''Cannot locate specified Dockerfile:'' \<longrightarrow>
            FnImageBuild client opts w =
              ((GetImageName opts3, if perr = None then Some out else None, perr), opts3,
               (s3, snd w @ auth_calls (with_defaults opts)
                      @ [Call_BuildImage (build_request opts3) opts3,
                         Call_PullImage (pull_request opts3) (Auth opts3) opts3])))"
    using assms(2-4) fp w1
    by (auto simp: FnImageBuild_unfold FnPull_request client_BuildImage_def client_PullImage_def)
  have pulls: "filter is_pull (new_calls w (snd (snd (FnImageBuild client opts w)))) =
           (case berr of
              None \<Rightarrow> []
            | Some e \<Rightarrow>
                if Contains (Error e) ''Cannot locate specified Dockerfile:''
                then [Call_PullImage (pull_request opts3) (Auth opts3) opts3] else [])"
  proof (cases berr)
    case None
    with eqs show ?thesis by (simp add: auth_calls_no_pull)
  next
    case (Some e)
    with eqs show ?thesis
      by (cases "Contains (Error e) ''Cannot locate specified Dockerfile:''")
        (simp_all add: auth_calls_no_pull)
  qed
  from eqs pulls show ?thesis by blast
qed

theorem FnImageBuild_fallback_witness:
  "FnImageBuild (build_fails ''Cannot locate specified Dockerfile: Dockerfile'') python_opts (0, [])
     = ((''gofn/python'', Some [], None), with_defaults python_opts,
        (2, [Call_BuildImage (build_request (with_defaults python_opts)) (with_defaults python_opts),
             Call_PullImage \<lparr>Repository = ''gofn/python'', Tag = ''latest''\<rparr> no_auth
               (with_defaults python_opts)])) \<and>
   FnImageBuild (build_fails ''no space left on device'') python_opts (0, [])
     = ((''gofn/python'', None, Some (EngineError ''no space left on device'')),
        with_defaults python_opts,
        (1, [Call_BuildImage (build_request (with_defaults python_opts))
               (with_defaults python_opts)])) \<and>
   FnImageBuild ok_client python_opts (0, [])
     = ((''gofn/python'', Some ''built'', None), with_defaults python_opts,
        (1, [Call_BuildImage (build_request (with_defaults python_opts))
               (with_defaults python_opts)])) \<and>
   fst (FnImageBuild ok_client cred_opts (0, [])) = (''gofn/python'', Some ''built'', None) \<and>
   map is_pull (snd (snd (snd (FnImageBuild ok_client cred_opts (0, []))))) = [False, False] \<and>
   fst (FnImageBuild (build_fails ''Cannot locate specified Dockerfile: Dockerfile'') cred_opts (0, []))
     = (''gofn/python'', Some [], None) \<and>
   map is_pull (snd (snd (snd (FnImageBuild
       (build_fails ''Cannot locate specified Dockerfile: Dockerfile'') cred_opts (0, [])))))
     = [False, False, True]"
proof -
  have a: "auth client (with_defaults python_opts) (0, []) = (None, with_defaults python_opts, (0, []))"
    for client :: "nat Client"
    by (rule auth_no_credentials)
      (simp add: has_credentials_def with_defaults_def python_opts_def no_auth_def)
  have f: "\<not> ForcePull python_opts" "Auth (with_defaults python_opts) = no_auth"
    by (simp_all add: python_opts_def with_defaults_def)
  have ac: "auth_calls (with_defaults python_opts) = []"
    by (simp add: auth_calls_def has_credentials_def with_defaults_def python_opts_def no_auth_def)
  let ?authed = "(with_defaults cred_opts)
      \<lparr>Auth := no_auth\<lparr>Username := ''u'', Password := ''p'',
                       ServerAddress := ''https://index.docker.io/v1/'',
                       IdentityToken := ''tok''\<rparr>\<rparr>"
  let ?check = "Call_AuthCheck
      (no_auth\<lparr>Username := ''u'', Password := ''p'',
               ServerAddress := ''https://index.docker.io/v1/''\<rparr>)
      ((with_defaults cred_opts)
         \<lparr>Auth := no_auth\<lparr>Username := ''u'', Password := ''p'',
                          ServerAddress := ''https://index.docker.io/v1/''\<rparr>\<rparr>)"
  have ca: "auth ok_client (with_defaults cred_opts) (0, []) = (None, ?authed, (1, [?check]))"
    by (simp add: auth_def client_AuthCheck_def ok_client_def with_defaults_def cred_opts_def
        python_opts_def no_auth_def Let_def)
  have cb: "auth (build_fails msg) (with_defaults cred_opts) (0, []) = (None, ?authed, (1, [?check]))"
    for msg
    by (simp add: auth_def client_AuthCheck_def build_fails_def ok_client_def with_defaults_def
        cred_opts_def python_opts_def no_auth_def Let_def)
  have cf: "\<not> ForcePull cred_opts"
    by (simp add: cred_opts_def python_opts_def)
  have cc: "auth_calls (with_defaults cred_opts) = [?check]"
    by (simp add: auth_calls_def has_credentials_def with_defaults_def cred_opts_def
        python_opts_def no_auth_def Let_def)
  have cn: "GetImageName ?authed = ''gofn/python''"
    by (simp add: GetImageName_def with_defaults_def cred_opts_def python_opts_def Join_def
        Clean_def)
  have plain:
    "FnImageBuild (build_fails ''Cannot locate specified Dockerfile: Dockerfile'') python_opts (0, [])
     = ((''gofn/python'', Some [], None), with_defaults python_opts,
        (2, [Call_BuildImage (build_request (with_defaults python_opts)) (with_defaults python_opts),
             Call_PullImage \<lparr>Repository = ''gofn/python'', Tag = ''latest''\<rparr> no_auth
               (with_defaults python_opts)])) \<and>
   FnImageBuild (build_fails ''no space left on device'') python_opts (0, [])
     = ((''gofn/python'', None, Some (EngineError ''no space left on device'')),
        with_defaults python_opts,
        (1, [Call_BuildImage (build_request (with_defaults python_opts))
               (with_defaults python_opts)])) \<and>
   FnImageBuild ok_client python_opts (0, [])
     = ((''gofn/python'', Some ''built'', None), with_defaults python_opts,
        (1, [Call_BuildImage (build_request (with_defaults python_opts))
               (with_defaults python_opts)]))"
    using
      FnImageBuild_fallback [where client = "build_fails ''Cannot locate specified Dockerfile: Dockerfile''"
        and opts = python_opts and w = "(0, [])" and ?opts3.0 = "with_defaults python_opts"
        and ?w1.0 = "(0, [])" and out = "[]"
        and berr = "Some (EngineError ''Cannot locate specified Dockerfile: Dockerfile'')"
        and ?s2.0 = 1 and perr = None and ?s3.0 = 2, OF f(1) a]
      FnImageBuild_fallback [where client = "build_fails ''no space left on device''"
        and opts = python_opts and w = "(0, [])" and ?opts3.0 = "with_defaults python_opts"
        and ?w1.0 = "(0, [])" and out = "[]"
        and berr = "Some (EngineError ''no space left on device'')"
        and ?s2.0 = 1 and perr = None and ?s3.0 = 2, OF f(1) a]
      FnImageBuild_fallback [where client = ok_client
        and opts = python_opts and w = "(0, [])" and ?opts3.0 = "with_defaults python_opts"
        and ?w1.0 = "(0, [])" and out = "''built''" and berr = None
        and ?s2.0 = 1 and perr = None and ?s3.0 = 2, OF f(1) a]
    by (simp add: f(2) ac GetImageName_python pull_request_python build_fails_def ok_client_def)
  have cred:
    "fst (FnImageBuild ok_client cred_opts (0, [])) = (''gofn/python'', Some ''built'', None) \<and>
     map is_pull (snd (snd (snd (FnImageBuild ok_client cred_opts (0, []))))) = [False, False] \<and>
     fst (FnImageBuild (build_fails ''Cannot locate specified Dockerfile: Dockerfile'') cred_opts (0, []))
       = (''gofn/python'', Some [], None) \<and>
     map is_pull (snd (snd (snd (FnImageBuild
         (build_fails ''Cannot locate specified Dockerfile: Dockerfile'') cred_opts (0, [])))))
       = [False, False, True]"
    using
      FnImageBuild_fallback [where client = ok_client
        and opts = cred_opts and w = "(0, [])" and ?opts3.0 = ?authed
        and ?w1.0 = "(1, [?check])" and out = "''built''" and berr = None
        and ?s2.0 = 2 and perr = None and ?s3.0 = 3, OF cf ca]
      FnImageBuild_fallback [where client = "build_fails ''Cannot locate specified Dockerfile: Dockerfile''"
        and opts = cred_opts and w = "(0, [])" and ?opts3.0 = ?authed
        and ?w1.0 = "(1, [?check])" and out = "[]"
        and berr = "Some (EngineError ''Cannot locate specified Dockerfile: Dockerfile'')"
        and ?s2.0 = 2 and perr = None and ?s3.0 = 3, OF cf cb]
    by (simp add: cc cn build_fails_def ok_client_def)
  from plain cred show ?thesis by blast
qed

lemma auth_ContextDir:
  assumes "auth client opts w = (err, opts', w')"
  shows "ContextDir opts' = ContextDir opts \<and>
         (\<exists>cs. snd w' = snd w @ cs \<and>
               (\<forall>c\<in>set cs. \<exists>bo. opts_at c = Some bo \<and> ContextDir bo = ContextDir opts))"
  using assms
  by (auto simp: auth_def client_AuthCheck_def Let_def split: if_splits prod.splits)

lemma FnImageBuild_calls:
  assumes "auth client (with_defaults opts) w = (err, opts3, (s1, tr1))"
  shows "fst (snd (FnImageBuild client opts w)) = opts3 \<and>
         (\<exists>s cs. snd (snd (FnImageBuild client opts w)) = (s, tr1 @ cs) \<and>
                 (\<forall>c\<in>set cs. opts_at c = Some opts3))"
  by (auto simp: FnImageBuild_unfold assms FnPull_request client_BuildImage_def
      client_PullImage_def split: prod.splits option.splits)

lemma FnImageBuild_cred_example:
  "map opts_at (snd (snd (snd (FnImageBuild
      (build_fails ''Cannot locate specified Dockerfile: Dockerfile'') cred_opts (0, [])))))
   = [Some (cred_opts\<lparr>Dockerfile := ''Dockerfile'', ContextDir := ''./'',
                  Auth := no_auth\<lparr>Username := ''u'', Password := ''p'',
                                  ServerAddress := ''https://index.docker.io/v1/''\<rparr>\<rparr>),
      Some (cred_opts\<lparr>Dockerfile := ''Dockerfile'', ContextDir := ''./'',
                  Auth := no_auth\<lparr>Username := ''u'', Password := ''p'',
                                  ServerAddress := ''https://index.docker.io/v1/'',
                                  IdentityToken := ''tok''\<rparr>\<rparr>),
      Some (cred_opts\<lparr>Dockerfile := ''Dockerfile'', ContextDir := ''./'',
                  Auth := no_auth\<lparr>Username := ''u'', Password := ''p'',
                                  ServerAddress := ''https://index.docker.io/v1/'',
                                  IdentityToken := ''tok''\<rparr>\<rparr>)]"
  by (simp add: FnImageBuild_def auth_def FnPull_def parseDockerImage_def ParseRepositoryTag_def
      GetImageName_def Join_def Clean_def client_AuthCheck_def client_BuildImage_def
      client_PullImage_def build_fails_def ok_client_def cred_opts_def python_opts_def
      no_auth_def Let_def)

text \<open>
  Claim C8: when \<open>ContextDir\<close> and \<open>RemoteURI\<close> are both empty, \<open>FnImageBuild\<close> leaves
  \<open>ContextDir\<close> set to \<open>./\<close>, and every engine call it makes (auth check, build or
  pull) is made while \<open>opts.ContextDir\<close> already is \<open>./\<close>.
\<close>

theorem FnImageBuild_context_default:
  assumes "ContextDir opts = []" and "RemoteURI opts = []"
  shows "ContextDir (fst (snd (FnImageBuild client opts w))) = ''./'' \<and>
         list_all ctx_set (new_calls w (snd (snd (FnImageBuild client opts w))))"
proof -
  have d: "ContextDir (with_defaults opts) = ''./''"
    using assms by (simp add: with_defaults_def)
  obtain err opts3 s1 tr1 where a: "auth client (with_defaults opts) w = (err, opts3, (s1, tr1))"
    by (cases "auth client (with_defaults opts) w") auto
  from auth_ContextDir [OF a] d obtain cs where
    c3: "ContextDir opts3 = ''./''" and tr1: "tr1 = snd w @ cs" and
    cs: "\<forall>c\<in>set cs. \<exists>bo. opts_at c = Some bo \<and> ContextDir bo = ''./''"
    by auto
  from FnImageBuild_calls [OF a] obtain s cs' where
    o: "fst (snd (FnImageBuild client opts w)) = opts3" and
    w': "snd (snd (FnImageBuild client opts w)) = (s, tr1 @ cs')" and
    cs': "\<forall>c\<in>set cs'. opts_at c = Some opts3"
    by auto
  have "new_calls w (snd (snd (FnImageBuild client opts w))) = cs @ cs'"
    using w' tr1 new_calls_append [of w s "cs @ cs'"] by simp
  moreover have "list_all ctx_set (cs @ cs')"
    using cs cs' c3 by (auto simp: list_all_iff ctx_set_def)
  ultimately show ?thesis using o c3 by simp
qed

theorem FnImageBuild_context_default_witness:
  "ContextDir cred_opts = [] \<and> RemoteURI cred_opts = [] \<and>
   ContextDir (fst (snd (FnImageBuild
      (build_fails ''Cannot locate specified Dockerfile: Dockerfile'') cred_opts (0, [])))) = ''./'' \<and>
   length (new_calls (0, []) (snd (snd (FnImageBuild
      (build_fails ''Cannot locate specified Dockerfile: Dockerfile'') cred_opts (0, []))))) = 3 \<and>
   list_all ctx_set (new_calls (0, []) (snd (snd (FnImageBuild
      (build_fails ''Cannot locate specified Dockerfile: Dockerfile'') cred_opts (0, [])))))"
proof -
  have e: "ContextDir cred_opts = []" "RemoteURI cred_opts = []"
    by (simp_all add: cred_opts_def python_opts_def)
  show ?thesis
    using e arg_cong [OF FnImageBuild_cred_example, of length]
      FnImageBuild_context_default [OF e,
        of "build_fails ''Cannot locate specified Dockerfile: Dockerfile''" "(0, [])"]
    by (simp add: new_calls_def)
qed

text \<open>
  Claim C10 says that with credentials present the auth step writes the default
  server address. It does so only into an empty \<open>ServerAddress\<close>: an address the
  caller has set is kept.
\<close>

theorem FnImageBuild_mutation_counterexample:
  "has_credentials (Auth private_opts) \<and>
   ServerAddress (Auth (fst (snd (FnImageBuild ok_client private_opts (0, [])))))
     = ''registry.example.com'' \<and>
   ServerAddress (Auth (fst (snd (FnImageBuild ok_client private_opts (0, [])))))
     \<noteq> ''https://index.docker.io/v1/''"
  by (simp add: FnImageBuild_def auth_def FnPull_def has_credentials_def
      client_AuthCheck_def client_BuildImage_def client_PullImage_def
      ok_client_def private_opts_def python_opts_def no_auth_def Let_def)

text \<open>
  Claim C10, amended: the options \<open>FnImageBuild\<close> leaves behind are the options it
  was given with an empty \<open>Dockerfile\<close> set to \<open>Dockerfile\<close>, an empty \<open>ContextDir\<close>
  (with no \<open>RemoteURI\<close>) set to \<open>./\<close> and, when credentials are present, an empty
  \<open>Auth.ServerAddress\<close> set to the default registry address and, if the auth check
  succeeds, \<open>Auth.IdentityToken\<close> set to the token obtained. Nothing else changes.
\<close>

theorem FnImageBuild_mutation:
  "fst (snd (FnImageBuild client opts w)) =
     (with_defaults opts)
       \<lparr>Auth :=
          (if has_credentials (Auth opts) then
             (let a = (Auth opts)
                        \<lparr>ServerAddress :=
                           (if ServerAddress (Auth opts) = [] then ''https://index.docker.io/v1/''
                            else ServerAddress (Auth opts))\<rparr>
              in case fst (AuthCheck client a (fst w)) of
                   (status, None) \<Rightarrow> a\<lparr>IdentityToken := AuthStatus_IdentityToken status\<rparr>
                 | (status, Some e) \<Rightarrow> a)
           else Auth opts)\<rparr>"
proof -
  have a: "fst (snd (auth client o2 w)) =
     o2\<lparr>Auth :=
          (if has_credentials (Auth o2) then
             (let a = (Auth o2)
                        \<lparr>ServerAddress :=
                           (if ServerAddress (Auth o2) = [] then ''https://index.docker.io/v1/''
                            else ServerAddress (Auth o2))\<rparr>
              in case fst (AuthCheck client a (fst w)) of
                   (status, None) \<Rightarrow> a\<lparr>IdentityToken := AuthStatus_IdentityToken status\<rparr>
                 | (status, Some e) \<Rightarrow> a)
           else Auth o2)\<rparr>" for o2
    by (auto simp: auth_def has_credentials_def client_AuthCheck_def Let_def
        split: prod.splits option.splits)
  have b: "fst (snd (FnImageBuild client opts w)) = fst (snd (auth client (with_defaults opts) w))"
    by (simp add: FnImageBuild_unfold split: prod.splits option.splits)
  have c: "Auth (with_defaults opts) = Auth opts" by (simp add: with_defaults_def)
  show ?thesis unfolding b a c ..
qed

theorem FnImageBuild_mutation_witness:
  "has_credentials (Auth cred_opts) \<and>
   fst (snd (FnImageBuild ok_client cred_opts (0, []))) =
     cred_opts\<lparr>Dockerfile := ''Dockerfile'', ContextDir := ''./'',
               Auth := no_auth\<lparr>Username := ''u'', Password := ''p'',
                               ServerAddress := ''https://index.docker.io/v1/'',
                               IdentityToken := ''tok''\<rparr>\<rparr> \<and>
   fst (snd (FnImageBuild ok_client private_opts (0, []))) =
     private_opts\<lparr>Dockerfile := ''Dockerfile'', ContextDir := ''./'',
               Auth := no_auth\<lparr>Username := ''u'', Password := ''p'',
                               ServerAddress := ''registry.example.com'',
                               IdentityToken := ''tok''\<rparr>\<rparr> \<and>
   fst (snd (FnImageBuild ok_client python_opts (0, []))) =
     python_opts\<lparr>Dockerfile := ''Dockerfile'', ContextDir := ''./''\<rparr>"
  using FnImageBuild_mutation [of ok_client cred_opts "(0, [])"]
    FnImageBuild_mutation [of ok_client private_opts "(0, [])"]
    FnImageBuild_mutation [of ok_client python_opts "(0, [])"]
  by (simp add: has_credentials_def with_defaults_def ok_client_def cred_opts_def
      private_opts_def python_opts_def no_auth_def)

end
